theory Spec2Isabelle
  imports Complex_Main
begin

section \<open>Data model (app/db/models.py)\<close>

text \<open>
  The tables the recommendation engine reads, with the columns it touches. Python floats
  are idealised as real numbers; nullable columns are options; a table is the list of its
  rows in the order a query without ORDER BY returns them.
\<close>

datatype RewardType = CASHBACK | POINTS | MILES

record Category =
  cat_id :: int
  cat_name :: string

record Merchant =
  mer_id :: int
  mer_name :: string
  mer_category_id :: int

record CreditCard =
  card_id :: int
  card_name :: string
  card_bank :: string
  annual_fee :: real
  card_is_active :: bool

record CardReward =
  rew_id :: int
  credit_card_id :: int
  category_id :: "int option"
  merchant_id :: "int option"
  reward_type :: RewardType
  reward_rate :: real
  minimum_spend :: real
  maximum_spend :: "real option"
  is_active :: bool

record UserCard =
  uc_user_id :: int
  uc_credit_card_id :: int
  uc_is_active :: bool

text \<open>
  A datetime carries its calendar year and month (what SQL's extract reads) and its
  position on the time line in days (what comparisons and timedelta arithmetic use).
\<close>

record datetime =
  dt_year :: int
  dt_month :: int
  dt_ordinal :: real

record Expense =
  exp_user_id :: int
  exp_merchant_id :: int
  amount :: real
  expense_date :: datetime

record Database =
  categories :: "Category list"
  merchants :: "Merchant list"
  credit_cards :: "CreditCard list"
  card_rewards :: "CardReward list"
  user_cards :: "UserCard list"
  expenses :: "Expense list"

section \<open>Result types (app/schemas.py and the dictionaries the engine returns)\<close>

record Totals =
  total_cashback :: real
  total_points :: real

record RewardEntry =
  entry_amount :: real
  entry_rate :: real
  entry_type :: RewardType

record CardRewards = Totals +
  category_breakdown :: "string \<rightharpoonup> RewardEntry"

record CardCombination =
  cards :: "CreditCard list"
  projected_cashback :: real
  projected_points :: real
  total_annual_fee :: real
  net_benefit :: real

record RecommendedCard =
  rec_id :: int
  rec_name :: string
  rec_bank :: string

datatype PurchaseAdvice =
    NoActiveCards
  | MerchantNotFound
  | Recommendation RecommendedCard real RewardType string string
  | NoSuitableCard
  | AttributeError

section \<open>Queries shared by the engine's methods\<close>

text \<open>The relationship \<open>reward.category\<close>: the category row the foreign key points to.\<close>

definition reward_category :: "Database \<Rightarrow> CardReward \<Rightarrow> Category option" where
  "reward_category db reward =
     (case category_id reward of
        None \<Rightarrow> None
      | Some cid \<Rightarrow> find (\<lambda>c. cat_id c = cid) (categories db))"

text \<open>The test \<open>reward.category and reward.category.name == category\<close>.\<close>

definition matches_category :: "Database \<Rightarrow> string \<Rightarrow> CardReward \<Rightarrow> bool" where
  "matches_category db category reward =
     (case reward_category db reward of
        None \<Rightarrow> False
      | Some c \<Rightarrow> cat_name c = category)"

text \<open>The query for a card's active reward rules.\<close>

definition active_rewards :: "Database \<Rightarrow> CreditCard \<Rightarrow> CardReward list" where
  "active_rewards db crd =
     filter (\<lambda>r. credit_card_id r = card_id crd \<and> is_active r) (card_rewards db)"

text \<open>
  \<open>applicable_amount\<close> as both calculators compute it: the annual amount, limited to
  twelve times the monthly cap when the cap is truthy (neither None nor 0.0).
\<close>

definition applicable_amount :: "real \<Rightarrow> CardReward \<Rightarrow> real" where
  "applicable_amount annual_amount reward =
     (case maximum_spend reward of
        None \<Rightarrow> annual_amount
      | Some m \<Rightarrow> if m = 0 then annual_amount else min annual_amount (m * 12))"

section \<open>get_user_spending_pattern\<close>

text \<open>
  The method is one aggregate query, read here as the two-stage aggregation it writes:
  the join of categories, merchants and expenses, restricted to the user's expenses dated
  between \<open>now - months * 30 days\<close> and \<open>now\<close>, is grouped by category and by the
  calendar year and month of the expense; \<open>func.sum\<close> totals each group and
  \<open>func.avg\<close>, under the second \<open>group_by\<close> on the category, averages the totals
  of each category (the column labelled \<open>avg_monthly_amount\<close>). The clock is a
  parameter, and a category's rows come in the order of the categories table.
\<close>

definition category_expenses :: "Database \<Rightarrow> datetime \<Rightarrow> int \<Rightarrow> int \<Rightarrow> Category \<Rightarrow> Expense list" where
  "category_expenses db end_date user_id months cat =
     [e. mer \<leftarrow> merchants db, cat_id cat = mer_category_id mer,
         e \<leftarrow> expenses db, mer_id mer = exp_merchant_id e,
         exp_user_id e = user_id,
         dt_ordinal end_date - real_of_int (months * 30) \<le> dt_ordinal (expense_date e),
         dt_ordinal (expense_date e) \<le> dt_ordinal end_date]"

definition expense_month :: "Expense \<Rightarrow> int \<times> int" where
  "expense_month e = (dt_year (expense_date e), dt_month (expense_date e))"

definition monthly_sums :: "Expense list \<Rightarrow> real list" where
  "monthly_sums es =
     map (\<lambda>ym. sum_list (map amount (filter (\<lambda>e. expense_month e = ym) es)))
         (remdups (map expense_month es))"

definition avg :: "real list \<Rightarrow> real" where
  "avg xs = sum_list xs / real (length xs)"

definition get_user_spending_pattern ::
    "Database \<Rightarrow> datetime \<Rightarrow> int \<Rightarrow> int \<Rightarrow> (string \<times> real) list" where
  "get_user_spending_pattern db now user_id months =
     [(cat_name cat, avg (monthly_sums (category_expenses db now user_id months cat))).
        cat \<leftarrow> categories db, category_expenses db now user_id months cat \<noteq> []]"

section \<open>calculate_card_rewards\<close>

text \<open>
  One pass of the first inner loop: a rule whose category relationship is present and
  named like the profile's category. The cap is computed into \<open>applicable_amount\<close>,
  which the loop body then does not read.
\<close>

definition specific_step :: "Database \<Rightarrow> string \<Rightarrow> real \<Rightarrow> real \<times> RewardType \<Rightarrow> CardReward \<Rightarrow> real \<times> RewardType" where
  "specific_step db category annual_amount st reward =
     (if matches_category db category reward then
        (let applicable = applicable_amount annual_amount reward in
         if reward_rate reward > fst st
         then (reward_rate reward, reward_type reward) else st)
      else st)"

text \<open>One pass of the second inner loop: a rule whose category relationship is None.\<close>

definition general_step :: "Database \<Rightarrow> real \<Rightarrow> real \<times> RewardType \<Rightarrow> CardReward \<Rightarrow> real \<times> RewardType" where
  "general_step db annual_amount st reward =
     (if reward_category db reward = None then
        (let applicable = applicable_amount annual_amount reward in
         if reward_rate reward > fst st
         then (reward_rate reward, reward_type reward) else st)
      else st)"

definition card_category_reward :: "Database \<Rightarrow> CardReward list \<Rightarrow> string \<Rightarrow> real \<Rightarrow> RewardEntry" where
  "card_category_reward db rewards category monthly_amount =
     (let annual_amount = monthly_amount * 12;
          st1 = foldl (specific_step db category annual_amount) (0, CASHBACK) rewards;
          st2 = (if fst st1 = 0
                 then foldl (general_step db annual_amount) st1 rewards else st1);
          reward_amount = annual_amount * fst st2
      in \<lparr>entry_amount = reward_amount, entry_rate = fst st2, entry_type = snd st2\<rparr>)"

definition card_rewards_step :: "Database \<Rightarrow> CardReward list \<Rightarrow> CardRewards \<Rightarrow> string \<times> real \<Rightarrow> CardRewards" where
  "card_rewards_step db rewards acc item =
     (let e = card_category_reward db rewards (fst item) (snd item);
          acc' = acc\<lparr>category_breakdown := (category_breakdown acc)(fst item \<mapsto> e)\<rparr>
      in if entry_type e = CASHBACK
         then acc'\<lparr>total_cashback := total_cashback acc + entry_amount e\<rparr>
         else acc'\<lparr>total_points := total_points acc + entry_amount e\<rparr>)"

definition calculate_card_rewards :: "Database \<Rightarrow> CreditCard \<Rightarrow> (string \<times> real) list \<Rightarrow> CardRewards" where
  "calculate_card_rewards db crd spending_pattern =
     foldl (card_rewards_step db (active_rewards db crd))
           \<lparr>total_cashback = 0, total_points = 0, category_breakdown = Map.empty\<rparr>
           spending_pattern"

section \<open>_calculate_combination_rewards\<close>

definition amount_step :: "real \<Rightarrow> real \<times> RewardType \<Rightarrow> CardReward \<Rightarrow> real \<times> RewardType" where
  "amount_step annual_amount st reward =
     (let reward_amount = applicable_amount annual_amount reward * reward_rate reward in
      if reward_amount > fst st then (reward_amount, reward_type reward) else st)"

definition comb_specific_step :: "Database \<Rightarrow> string \<Rightarrow> real \<Rightarrow> real \<times> RewardType \<Rightarrow> CardReward \<Rightarrow> real \<times> RewardType" where
  "comb_specific_step db category annual_amount st reward =
     (if matches_category db category reward then amount_step annual_amount st reward else st)"

text \<open>The second query adds the filter \<open>CardReward.category == None\<close>, a NULL foreign key.\<close>

definition general_rewards :: "Database \<Rightarrow> CreditCard \<Rightarrow> CardReward list" where
  "general_rewards db crd =
     filter (\<lambda>r. credit_card_id r = card_id crd \<and> is_active r \<and> category_id r = None)
            (card_rewards db)"

definition comb_category_reward :: "Database \<Rightarrow> CreditCard list \<Rightarrow> string \<Rightarrow> real \<Rightarrow> real \<times> RewardType" where
  "comb_category_reward db cs category monthly_amount =
     (let annual_amount = monthly_amount * 12;
          st1 = foldl (\<lambda>st crd. foldl (comb_specific_step db category annual_amount) st
                                        (active_rewards db crd)) (0, CASHBACK) cs
      in if fst st1 = 0
         then foldl (\<lambda>st crd. foldl (amount_step annual_amount) st (general_rewards db crd))
                    st1 cs
         else st1)"

definition combination_step :: "Database \<Rightarrow> CreditCard list \<Rightarrow> Totals \<Rightarrow> string \<times> real \<Rightarrow> Totals" where
  "combination_step db cs acc item =
     (let best = comb_category_reward db cs (fst item) (snd item) in
      if snd best = CASHBACK
      then acc\<lparr>total_cashback := total_cashback acc + fst best\<rparr>
      else acc\<lparr>total_points := total_points acc + fst best\<rparr>)"

definition calculate_combination_rewards :: "Database \<Rightarrow> CreditCard list \<Rightarrow> (string \<times> real) list \<Rightarrow> Totals" where
  "calculate_combination_rewards db cs spending_pattern =
     foldl (combination_step db cs) \<lparr>total_cashback = 0, total_points = 0\<rparr> spending_pattern"

section \<open>optimize_card_combination\<close>

text \<open>\<open>itertools.combinations\<close>: the sublists of a given length, in lexicographic order of positions.\<close>

fun combinations :: "'a list \<Rightarrow> nat \<Rightarrow> 'a list list" where
  "combinations xs 0 = [[]]"
| "combinations [] (Suc n) = []"
| "combinations (x # xs) (Suc n) = map ((#) x) (combinations xs n) @ combinations xs (Suc n)"

definition score_combination :: "Database \<Rightarrow> (string \<times> real) list \<Rightarrow> CreditCard list \<Rightarrow> CardCombination" where
  "score_combination db spending_pattern card_combination =
     (let combination_rewards = calculate_combination_rewards db card_combination spending_pattern;
          fee = sum_list (map annual_fee card_combination);
          net = total_cashback combination_rewards - fee;
          points_cash_value = total_points combination_rewards * (1 / 100);
          total_benefit = net + points_cash_value
      in \<lparr>cards = card_combination,
          projected_cashback = total_cashback combination_rewards,
          projected_points = total_points combination_rewards,
          total_annual_fee = fee,
          net_benefit = total_benefit\<rparr>)"

text \<open>
  The search over a given profile: every combination of 1 up to
  \<open>min max_cards (length available_cards)\<close> active cards, sorted by net benefit in
  descending order (a stable sort, as Python's), cut to the first five. The method also
  queries the user's current cards into \<open>user_card_ids\<close>, which nothing reads; the
  model leaves that query out.
\<close>

definition all_combinations :: "Database \<Rightarrow> (string \<times> real) list \<Rightarrow> int \<Rightarrow> CardCombination list" where
  "all_combinations db spending_pattern max_cards =
     (let available_cards = filter card_is_active (credit_cards db) in
      concat (map (\<lambda>num_cards. map (score_combination db spending_pattern)
                                   (combinations available_cards num_cards))
                  [1 ..< nat (min (max_cards + 1) (int (length available_cards) + 1))]))"

definition optimize_card_combination :: "Database \<Rightarrow> datetime \<Rightarrow> int \<Rightarrow> int \<Rightarrow> CardCombination list" where
  "optimize_card_combination db now user_id max_cards =
     (let spending_pattern = get_user_spending_pattern db now user_id 3 in
      if spending_pattern = [] then []
      else take 5 (sort_key (\<lambda>x. - net_benefit x)
                            (all_combinations db spending_pattern max_cards)))"

section \<open>get_purchase_recommendation\<close>

text \<open>The user's active cards joined with the active cards of the catalogue.\<close>

definition owned_active_cards :: "Database \<Rightarrow> int \<Rightarrow> (UserCard \<times> CreditCard) list" where
  "owned_active_cards db user_id =
     [(uc, c). uc \<leftarrow> user_cards db, c \<leftarrow> credit_cards db,
               uc_credit_card_id uc = card_id c,
               uc_user_id uc = user_id, uc_is_active uc, card_is_active c]"

text \<open>The candidate reward of one rule: the if / elif / elif chain, else 0.0.\<close>

definition purchase_reward_amount :: "Merchant \<Rightarrow> int \<Rightarrow> real \<Rightarrow> CardReward \<Rightarrow> real" where
  "purchase_reward_amount merchant mid amt reward =
     (if category_id reward = Some (mer_category_id merchant) then amt * reward_rate reward
      else if merchant_id reward = Some mid then amt * reward_rate reward
      else if category_id reward = None \<and> merchant_id reward = None then amt * reward_rate reward
      else 0)"

type_synonym best_state = "CreditCard option \<times> real \<times> RewardType"

definition purchase_step :: "Merchant \<Rightarrow> int \<Rightarrow> real \<Rightarrow> CreditCard \<Rightarrow> best_state \<Rightarrow> CardReward \<Rightarrow> best_state" where
  "purchase_step merchant mid amt crd st reward =
     (let reward_amount = purchase_reward_amount merchant mid amt reward in
      if reward_amount > fst (snd st)
      then (Some crd, reward_amount, reward_type reward) else st)"

definition best_purchase :: "Database \<Rightarrow> Merchant \<Rightarrow> int \<Rightarrow> real \<Rightarrow> (UserCard \<times> CreditCard) list \<Rightarrow> best_state" where
  "best_purchase db merchant mid amt ucs =
     foldl (\<lambda>st uc. foldl (purchase_step merchant mid amt (snd uc)) st
                          (active_rewards db (snd uc)))
           (None, 0, CASHBACK) ucs"

definition get_purchase_recommendation :: "Database \<Rightarrow> int \<Rightarrow> int \<Rightarrow> real \<Rightarrow> PurchaseAdvice" where
  "get_purchase_recommendation db user_id mid amt =
     (let ucs = owned_active_cards db user_id in
      if ucs = [] then NoActiveCards
      else case find (\<lambda>m. mer_id m = mid) (merchants db) of
        None \<Rightarrow> MerchantNotFound
      | Some merchant \<Rightarrow>
          (case best_purchase db merchant mid amt ucs of
             (Some best_card, best_reward, best_type) \<Rightarrow>
               (case find (\<lambda>c. cat_id c = mer_category_id merchant) (categories db) of
                  None \<Rightarrow> AttributeError
                | Some c \<Rightarrow>
                    Recommendation
                      \<lparr>rec_id = card_id best_card, rec_name = card_name best_card,
                       rec_bank = card_bank best_card\<rparr>
                      best_reward best_type (mer_name merchant) (cat_name c))
           | (None, best_reward, best_type) \<Rightarrow> NoSuitableCard))"

section \<open>Example data\<close>

text \<open>
  Two categories, two merchants, two cards and one user (id 7) who owns both cards and
  has one expense at each merchant in October 2026; the clock stands in November 2026.
\<close>

definition petrol :: Category where
  "petrol = \<lparr>cat_id = 1, cat_name = ''Petrol''\<rparr>"

definition groceries :: Category where
  "groceries = \<lparr>cat_id = 2, cat_name = ''Groceries''\<rparr>"

definition shell :: Merchant where
  "shell = \<lparr>mer_id = 10, mer_name = ''Shell'', mer_category_id = 1\<rparr>"

definition tesco :: Merchant where
  "tesco = \<lparr>mer_id = 11, mer_name = ''Tesco'', mer_category_id = 2\<rparr>"

definition card_a :: CreditCard where
  "card_a = \<lparr>card_id = 1, card_name = ''A'', card_bank = ''Bank'', annual_fee = 50,
              card_is_active = True\<rparr>"

definition card_b :: CreditCard where
  "card_b = \<lparr>card_id = 2, card_name = ''B'', card_bank = ''Bank'', annual_fee = 0,
              card_is_active = True\<rparr>"

text \<open>An active cashback rule: id, card, category scope, merchant scope, rate, monthly cap.\<close>

definition rule :: "int \<Rightarrow> int \<Rightarrow> int option \<Rightarrow> int option \<Rightarrow> real \<Rightarrow> real option \<Rightarrow> CardReward" where
  "rule i c cat mer rate cap =
     \<lparr>rew_id = i, credit_card_id = c, category_id = cat, merchant_id = mer,
      reward_type = CASHBACK, reward_rate = rate, minimum_spend = 0, maximum_spend = cap,
      is_active = True\<rparr>"

definition october :: "real \<Rightarrow> datetime" where
  "october d = \<lparr>dt_year = 2026, dt_month = 10, dt_ordinal = d\<rparr>"

definition clock :: datetime where
  "clock = \<lparr>dt_year = 2026, dt_month = 11, dt_ordinal = 120\<rparr>"

definition demo_db :: "CardReward list \<Rightarrow> Database" where
  "demo_db rules =
     \<lparr>categories = [petrol, groceries], merchants = [shell, tesco],
      credit_cards = [card_a, card_b], card_rewards = rules,
      user_cards = [\<lparr>uc_user_id = 7, uc_credit_card_id = 1, uc_is_active = True\<rparr>,
                    \<lparr>uc_user_id = 7, uc_credit_card_id = 2, uc_is_active = True\<rparr>],
      expenses = [\<lparr>exp_user_id = 7, exp_merchant_id = 10, amount = 300,
                   expense_date = october 100\<rparr>,
                  \<lparr>exp_user_id = 7, exp_merchant_id = 11, amount = 200,
                   expense_date = october 101\<rparr>]\<rparr>"

text \<open>Card A: Petrol 5% capped at 300 a month, 0.5% general. Card B: Groceries 5% capped at 500, 1% general.\<close>

definition spec_rules :: "CardReward list" where
  "spec_rules =
     [rule 1 1 (Some 1) None (5 / 100) (Some 300), rule 2 1 None None (5 / 1000) None,
      rule 3 2 (Some 2) None (5 / 100) (Some 500), rule 4 2 None None (1 / 100) None]"

text \<open>Card A: 1% at the merchant Shell. Card B: 5% on the category Petrol.\<close>

definition scoped_rules :: "CardReward list" where
  "scoped_rules =
     [rule 1 1 None (Some 10) (1 / 100) None, rule 2 2 (Some 1) None (5 / 100) None]"

section \<open>Erasing the minimum spend\<close>

text \<open>
  Two databases differ only in the \<open>minimum_spend\<close> values of their reward rules
  exactly when they agree after that column is overwritten with a constant.
\<close>

definition clear_rule :: "CardReward \<Rightarrow> CardReward" where
  "clear_rule r = r\<lparr>minimum_spend := 0\<rparr>"

definition clear_minimum_spend :: "Database \<Rightarrow> Database" where
  "clear_minimum_spend db = db\<lparr>card_rewards := map clear_rule (card_rewards db)\<rparr>"

section \<open>Auxiliary facts\<close>

lemmas ex_defs = demo_db_def spec_rules_def scoped_rules_def rule_def petrol_def groceries_def shell_def
  tesco_def card_a_def card_b_def october_def clock_def


subsection \<open>The first inner loop of calculate_card_rewards keeps the highest matching rate\<close>




subsection \<open>The breakdown dictionary holds the entry of each profile category\<close>



subsection \<open>Combinations and the ranked list\<close>

lemma combinations_length: "ys \<in> set (combinations xs n) \<Longrightarrow> length ys = n"
  by (induction xs n arbitrary: ys rule: combinations.induct) auto

lemma combinations_subset: "ys \<in> set (combinations xs n) \<Longrightarrow> set ys \<subseteq> set xs"
proof (induction xs n arbitrary: ys rule: combinations.induct)
  case (3 x xs n)
  from "3.prems" consider zs where "ys = x # zs" "zs \<in> set (combinations xs n)"
    | "ys \<in> set (combinations xs (Suc n))" by auto
  then show ?case
  proof cases
    case 1
    with "3.IH"(1)[OF 1(2)] show ?thesis by auto
  next
    case 2
    with "3.IH"(2)[OF 2] show ?thesis by auto
  qed
qed simp_all

lemma combinations_distinct:
  "ys \<in> set (combinations xs n) \<Longrightarrow> distinct (map f xs) \<Longrightarrow> distinct (map f ys)"
proof (induction xs n arbitrary: ys rule: combinations.induct)
  case (1 xs)
  then show ?case by simp
next
  case (2 n)
  then show ?case by simp
next
  case (3 x xs n)
  from "3.prems"(2) have dx: "distinct (map f xs)" and nx: "f x \<notin> f ` set xs" by auto
  from "3.prems"(1) consider zs where "ys = x # zs" "zs \<in> set (combinations xs n)"
    | "ys \<in> set (combinations xs (Suc n))" by auto
  then show ?case
  proof cases
    case 1
    from combinations_subset[OF 1(2)] nx have "f x \<notin> f ` set zs" by blast
    with "3.IH"(1)[OF 1(2) dx] 1(1) show ?thesis by simp
  next
    case 2
    from "3.IH"(2)[OF 2 dx] show ?thesis .
  qed
qed

lemma all_combinations_elem:
  assumes "c \<in> set (all_combinations db P k)"
  shows "\<exists>cs n. c = score_combination db P cs \<and> 1 \<le> n \<and> int n \<le> k
             \<and> cs \<in> set (combinations (filter card_is_active (credit_cards db)) n)"
proof -
  let ?av = "filter card_is_active (credit_cards db)"
  from assms obtain n cs where n: "1 \<le> n" "n < nat (min (k + 1) (int (length ?av) + 1))"
    and cs: "cs \<in> set (combinations ?av n)" and c: "c = score_combination db P cs"
    by (auto simp: all_combinations_def Let_def)
  from n(2) have "int n \<le> k" by linarith
  with n(1) cs c show ?thesis by blast
qed

lemma optimize_subset:
  "set (optimize_card_combination db now u k)
     \<subseteq> set (all_combinations db (get_user_spending_pattern db now u 3) k)"
proof -
  have "set (take 5 (sort_key f xs)) \<subseteq> set xs" for f :: "CardCombination \<Rightarrow> real" and xs
    using set_take_subset[of 5 "sort_key f xs"] by simp
  then show ?thesis by (auto simp: optimize_card_combination_def Let_def)
qed

lemma cards_score [simp]: "cards (score_combination db P cs) = cs"
  by (simp add: score_combination_def Let_def)

lemma demo_pattern:
  "get_user_spending_pattern (demo_db spec_rules) clock 7 3
     = [(''Petrol'', 300), (''Groceries'', 200)]"
  by (simp add: get_user_spending_pattern_def category_expenses_def monthly_sums_def avg_def
      expense_month_def ex_defs)

lemma demo_optimize:
  "map (\<lambda>c. (map card_id (cards c), net_benefit c))
       (optimize_card_combination (demo_db spec_rules) clock 7 3)
     = [([1, 2], 250), ([2], 156), ([1], 142)]"
  by code_simp

subsection \<open>The scan of get_purchase_recommendation\<close>

lemma foldl_nested_flat:
  "foldl (\<lambda>st uc. foldl (f (snd uc)) st (g uc)) st ucs
     = foldl (\<lambda>st cr. f (fst cr) st (snd cr)) st (concat (map (\<lambda>uc. map (Pair (snd uc)) (g uc)) ucs))"
  by (induction ucs arbitrary: st) (simp_all add: foldl_map)

lemma foldl_best:
  fixes v :: "'a \<Rightarrow> real"
  assumes step: "\<And>st x. step st x = (if v x > fst (snd st) then (Some (k x), v x, t x) else st)"
  shows "foldl step (b, br, bt) xs = (b', br', bt') \<Longrightarrow>
         (\<forall>x \<in> set xs. v x \<le> br') \<and> br \<le> br' \<and>
         ((b', br', bt') = (b, br, bt) \<or> (\<exists>x \<in> set xs. b' = Some (k x) \<and> br' = v x \<and> bt' = t x \<and> br < v x))"
proof (induction xs arbitrary: b br bt)
  case Nil
  then show ?case by simp
next
  case (Cons x xs)
  show ?case
  proof (cases "v x > br")
    case True
    then have "step (b, br, bt) x = (Some (k x), v x, t x)"
      by (subst step) simp
    with Cons.prems have "foldl step (Some (k x), v x, t x) xs = (b', br', bt')"
      by (simp only: foldl_Cons)
    from Cons.IH[OF this] True show ?thesis by (auto intro: order_trans less_le_trans)
  next
    case False
    then have "step (b, br, bt) x = (b, br, bt)"
      by (subst step) simp
    with Cons.prems have "foldl step (b, br, bt) xs = (b', br', bt')"
      by (simp only: foldl_Cons)
    from Cons.IH[OF this] False show ?thesis by auto
  qed
qed

lemma best_purchase_props:
  assumes "best_purchase db merchant mid amt ucs = (b', br', bt')"
  shows "(\<forall>uc \<in> set ucs. \<forall>r \<in> set (active_rewards db (snd uc)). purchase_reward_amount merchant mid amt r \<le> br')
       \<and> 0 \<le> br'
       \<and> ((b', br', bt') = (None, 0, CASHBACK)
          \<or> (\<exists>uc \<in> set ucs. \<exists>r \<in> set (active_rewards db (snd uc)).
                b' = Some (snd uc) \<and> br' = purchase_reward_amount merchant mid amt r
                \<and> bt' = reward_type r \<and> 0 < br'))"
proof -
  let ?cands = "concat (map (\<lambda>uc. map (Pair (snd uc)) (active_rewards db (snd uc))) ucs)"
  let ?step = "\<lambda>st cr. purchase_step merchant mid amt (fst cr) st (snd cr)"
  have st: "?step st x = (if purchase_reward_amount merchant mid amt (snd x) > fst (snd st)
                          then (Some (fst x), purchase_reward_amount merchant mid amt (snd x), reward_type (snd x)) else st)" for st x
    by (simp add: purchase_step_def Let_def)
  from assms have "foldl ?step (None, 0, CASHBACK) ?cands = (b', br', bt')"
    unfolding best_purchase_def
    by (simp only: foldl_nested_flat[where f = "purchase_step merchant mid amt"
                     and g = "\<lambda>uc. active_rewards db (snd uc)"])
  from foldl_best[where step = ?step and v = "\<lambda>x. purchase_reward_amount merchant mid amt (snd x)"
        and k = fst and t = "\<lambda>x. reward_type (snd x)", OF st this]
  show ?thesis by (auto; blast)
qed


lemma recommendation_cases:
  assumes own: "owned_active_cards db u \<noteq> []"
    and mer: "find (\<lambda>m. mer_id m = mid) (merchants db) = Some merchant"
    and bp: "best_purchase db merchant mid amt (owned_active_cards db u) = (b', br', bt')"
  shows "get_purchase_recommendation db u mid amt =
           (case b' of
              None \<Rightarrow> NoSuitableCard
            | Some best_card \<Rightarrow>
                (case find (\<lambda>c. cat_id c = mer_category_id merchant) (categories db) of
                   None \<Rightarrow> AttributeError
                 | Some c \<Rightarrow> Recommendation
                      \<lparr>rec_id = card_id best_card, rec_name = card_name best_card,
                       rec_bank = card_bank best_card\<rparr> br' bt' (mer_name merchant) (cat_name c)))"
  using own mer bp by (simp add: get_purchase_recommendation_def Let_def split: option.splits)


lemma demo_owned:
  "owned_active_cards (demo_db rules) 7
     = [(\<lparr>uc_user_id = 7, uc_credit_card_id = 1, uc_is_active = True\<rparr>, card_a),
        (\<lparr>uc_user_id = 7, uc_credit_card_id = 2, uc_is_active = True\<rparr>, card_b)]"
  by (simp add: owned_active_cards_def ex_defs)

lemma demo_merchant:
  "find (\<lambda>m. mer_id m = 10) (merchants (demo_db rules)) = Some shell"
  by (simp add: ex_defs)

lemma demo_merchant_category:
  "find (\<lambda>c. cat_id c = mer_category_id shell) (categories (demo_db rules)) = Some petrol"
  by (simp add: ex_defs)

subsection \<open>One card: choosing by rate and choosing by amount\<close>












subsection \<open>No method reads the minimum spend\<close>

lemma clear_tables [simp]:
  "categories (clear_minimum_spend db) = categories db"
  "merchants (clear_minimum_spend db) = merchants db"
  "credit_cards (clear_minimum_spend db) = credit_cards db"
  "user_cards (clear_minimum_spend db) = user_cards db"
  "expenses (clear_minimum_spend db) = expenses db"
  "card_rewards (clear_minimum_spend db) = map clear_rule (card_rewards db)"
  by (simp_all add: clear_minimum_spend_def)

lemma clear_rule_fields [simp]:
  "credit_card_id (clear_rule r) = credit_card_id r"
  "category_id (clear_rule r) = category_id r"
  "merchant_id (clear_rule r) = merchant_id r"
  "reward_type (clear_rule r) = reward_type r"
  "reward_rate (clear_rule r) = reward_rate r"
  "maximum_spend (clear_rule r) = maximum_spend r"
  "is_active (clear_rule r) = is_active r"
  by (simp_all add: clear_rule_def)

lemma clear_active_rewards:
  "active_rewards (clear_minimum_spend db) crd = map clear_rule (active_rewards db crd)"
  by (simp add: active_rewards_def filter_map comp_def)

lemma clear_general_rewards:
  "general_rewards (clear_minimum_spend db) crd = map clear_rule (general_rewards db crd)"
  by (simp add: general_rewards_def filter_map comp_def)

lemma clear_reward_category [simp]:
  "reward_category (clear_minimum_spend db) (clear_rule r) = reward_category db r"
  by (simp add: reward_category_def cong: option.case_cong)

lemma clear_matches_category [simp]:
  "matches_category (clear_minimum_spend db) c (clear_rule r) = matches_category db c r"
  by (simp add: matches_category_def)

lemma clear_applicable_amount [simp]:
  "applicable_amount A (clear_rule r) = applicable_amount A r"
  by (simp add: applicable_amount_def)

lemma clear_steps [simp]:
  "specific_step (clear_minimum_spend db) c A st (clear_rule r) = specific_step db c A st r"
  "general_step (clear_minimum_spend db) A st (clear_rule r) = general_step db A st r"
  "amount_step A st (clear_rule r) = amount_step A st r"
  "comb_specific_step (clear_minimum_spend db) c A st (clear_rule r) = comb_specific_step db c A st r"
  "purchase_reward_amount m mid amt (clear_rule r) = purchase_reward_amount m mid amt r"
  "purchase_step m mid amt crd bst (clear_rule r) = purchase_step m mid amt crd bst r"
  by (simp_all add: specific_step_def general_step_def amount_step_def comb_specific_step_def
      purchase_reward_amount_def purchase_step_def Let_def)

lemma clear_card_category_reward:
  "card_category_reward (clear_minimum_spend db) (map clear_rule rs) c a = card_category_reward db rs c a"
  by (simp add: card_category_reward_def foldl_map Let_def cong: if_cong)

lemma clear_calculate_card_rewards:
  "calculate_card_rewards (clear_minimum_spend db) crd P = calculate_card_rewards db crd P"
proof -
  have "card_rewards_step (clear_minimum_spend db) (map clear_rule rs) = card_rewards_step db rs" for rs
    by (intro ext) (simp add: card_rewards_step_def clear_card_category_reward)
  then show ?thesis by (simp add: calculate_card_rewards_def clear_active_rewards)
qed

lemma clear_comb_category_reward:
  "comb_category_reward (clear_minimum_spend db) cs c a = comb_category_reward db cs c a"
  by (simp add: comb_category_reward_def clear_active_rewards clear_general_rewards foldl_map
      Let_def cong: if_cong)

lemma clear_calculate_combination_rewards:
  "calculate_combination_rewards (clear_minimum_spend db) cs P = calculate_combination_rewards db cs P"
proof -
  have "combination_step (clear_minimum_spend db) cs = combination_step db cs"
    by (intro ext) (simp add: combination_step_def clear_comb_category_reward)
  then show ?thesis by (simp add: calculate_combination_rewards_def)
qed

lemma clear_category_expenses:
  "category_expenses (clear_minimum_spend db) now u m cat = category_expenses db now u m cat"
  by (simp only: category_expenses_def clear_tables)

lemma clear_get_user_spending_pattern:
  "get_user_spending_pattern (clear_minimum_spend db) now u m = get_user_spending_pattern db now u m"
  by (simp only: get_user_spending_pattern_def clear_category_expenses clear_tables)

lemma clear_optimize_card_combination:
  "optimize_card_combination (clear_minimum_spend db) now u k = optimize_card_combination db now u k"
proof -
  have "score_combination (clear_minimum_spend db) P = score_combination db P" for P
    by (intro ext) (simp add: score_combination_def clear_calculate_combination_rewards)
  then have "all_combinations (clear_minimum_spend db) P k = all_combinations db P k" for P
    by (simp add: all_combinations_def)
  then show ?thesis
    by (simp add: optimize_card_combination_def clear_get_user_spending_pattern Let_def cong: if_cong)
qed

lemma clear_get_purchase_recommendation:
  "get_purchase_recommendation (clear_minimum_spend db) u mid amt = get_purchase_recommendation db u mid amt"
proof -
  have "owned_active_cards (clear_minimum_spend db) u = owned_active_cards db u"
    by (simp add: owned_active_cards_def)
  moreover have "best_purchase (clear_minimum_spend db) m mid amt ucs = best_purchase db m mid amt ucs" for m ucs
    by (simp add: best_purchase_def clear_active_rewards foldl_map)
  ultimately show ?thesis
    by (simp add: get_purchase_recommendation_def Let_def cong: if_cong option.case_cong)
qed

subsection \<open>Sums by calendar month\<close>




section \<open>Properties of get_user_spending_pattern\<close>



section \<open>Properties of calculate_card_rewards\<close>

text \<open>
  C1 (spend cap in calculate_card_rewards). The claim: with a monthly cap \<open>m\<close> on the
  chosen rule and a monthly amount \<open>a\<close>, the category's reward amount is
  \<open>min (a * 12) (m * 12) * rate\<close>. The method computes the capped amount and then
  multiplies the uncapped annual amount by the rate. For card A with the single rule
  "Petrol 5%, cap 300 a month" and the profile Petrol = 500 a month, the breakdown amount
  is 500 * 12 * 0.05 = 300, where the claim requires min 6000 3600 * 0.05 = 180.
\<close>

theorem calculate_card_rewards_cap_unused:
  "category_breakdown
     (calculate_card_rewards (demo_db [rule 1 1 (Some 1) None (5 / 100) (Some 300)]) card_a
        [(''Petrol'', 500)]) ''Petrol''
     = Some \<lparr>entry_amount = 300, entry_rate = 5 / 100, entry_type = CASHBACK\<rparr>
   \<and> min (500 * 12) (300 * 12) * (5 / 100) = (180 :: real)"
  by (simp add: calculate_card_rewards_def card_rewards_step_def active_rewards_def
      card_category_reward_def specific_step_def general_step_def matches_category_def
      reward_category_def ex_defs Let_def)




section \<open>Properties of _calculate_combination_rewards\<close>





section \<open>Properties of optimize_card_combination\<close>

text \<open>
  C4 (output invariants). With card ids unique in the catalogue (the primary key), every
  returned combination has pairwise distinct cards and at most \<open>max_cards\<close> of them,
  the list is sorted by net benefit in non-increasing order, and it has at most five
  entries.
\<close>

theorem optimize_output_invariants:
  assumes "distinct (map card_id (credit_cards db))"
  shows "(\<forall>c \<in> set (optimize_card_combination db now u k).
            distinct (map card_id (cards c)) \<and> int (length (cards c)) \<le> k)
       \<and> sorted_wrt (\<lambda>a b. net_benefit a \<ge> net_benefit b) (optimize_card_combination db now u k)
       \<and> length (optimize_card_combination db now u k) \<le> 5"
proof (intro conjI ballI)
  fix c assume "c \<in> set (optimize_card_combination db now u k)"
  with optimize_subset have "c \<in> set (all_combinations db (get_user_spending_pattern db now u 3) k)"
    by blast
  from all_combinations_elem[OF this] obtain cs n where
    c: "c = score_combination db (get_user_spending_pattern db now u 3) cs" and n: "int n \<le> k"
    and cs: "cs \<in> set (combinations (filter card_is_active (credit_cards db)) n)" by blast
  from assms have "distinct (map card_id (filter card_is_active (credit_cards db)))"
    by (simp add: distinct_map_filter)
  from combinations_distinct[OF cs this] c show "distinct (map card_id (cards c))" by simp
  from combinations_length[OF cs] c n show "int (length (cards c)) \<le> k" by simp
next
  have "sorted_wrt (\<lambda>a b. net_benefit a \<ge> net_benefit b) (sort_key (\<lambda>x. - net_benefit x) xs)"
    for xs :: "CardCombination list"
    using sorted_sort_key[of "\<lambda>x. - net_benefit x" xs] by (simp add: sorted_wrt_map)
  then have "sorted_wrt (\<lambda>a b. net_benefit a \<ge> net_benefit b)
               (take 5 (sort_key (\<lambda>x. - net_benefit x) xs))" for xs :: "CardCombination list"
    by (rule sorted_wrt_take)
  then show "sorted_wrt (\<lambda>a b. net_benefit a \<ge> net_benefit b) (optimize_card_combination db now u k)"
    by (simp add: optimize_card_combination_def Let_def)
next
  show "length (optimize_card_combination db now u k) \<le> 5"
    by (simp add: optimize_card_combination_def Let_def)
qed

theorem optimize_output_invariants_witness:
  "distinct (map card_id (credit_cards (demo_db spec_rules)))
   \<and> optimize_card_combination (demo_db spec_rules) clock 7 3 \<noteq> []
   \<and> distinct (map card_id (cards (hd (optimize_card_combination (demo_db spec_rules) clock 7 3))))
   \<and> int (length (cards (hd (optimize_card_combination (demo_db spec_rules) clock 7 3)))) \<le> 3
   \<and> sorted_wrt (\<lambda>a b. net_benefit a \<ge> net_benefit b)
        (optimize_card_combination (demo_db spec_rules) clock 7 3)
   \<and> length (optimize_card_combination (demo_db spec_rules) clock 7 3) \<le> 5"
proof -
  have h: "distinct (map card_id (credit_cards (demo_db spec_rules)))"
    by (simp add: ex_defs)
  have ne: "optimize_card_combination (demo_db spec_rules) clock 7 3 \<noteq> []"
    using demo_optimize by auto
  then have "hd (optimize_card_combination (demo_db spec_rules) clock 7 3)
               \<in> set (optimize_card_combination (demo_db spec_rules) clock 7 3)"
    by (rule hd_in_set)
  with optimize_output_invariants[OF h, of clock 7 3] h ne show ?thesis by blast
qed

text \<open>
  C5 (net benefit). Every returned combination has net benefit equal to the combination's
  total cashback, plus its total points times the constant 0.01, minus the sum of the
  annual fees of its cards; the totals are those of _calculate_combination_rewards on the
  combination's cards and the user's profile.
\<close>

theorem net_benefit_formula:
  assumes "c \<in> set (optimize_card_combination db now u k)"
  shows "net_benefit c =
           total_cashback (calculate_combination_rewards db (cards c)
                             (get_user_spending_pattern db now u 3))
         + total_points (calculate_combination_rewards db (cards c)
                             (get_user_spending_pattern db now u 3)) * (1 / 100)
         - sum_list (map annual_fee (cards c))"
proof -
  from assms optimize_subset
  have "c \<in> set (all_combinations db (get_user_spending_pattern db now u 3) k)"
    by blast
  from all_combinations_elem[OF this] obtain cs where
    "c = score_combination db (get_user_spending_pattern db now u 3) cs" by blast
  then show ?thesis by (simp add: score_combination_def Let_def)
qed

theorem net_benefit_formula_witness:
  "hd (optimize_card_combination (demo_db spec_rules) clock 7 3)
     \<in> set (optimize_card_combination (demo_db spec_rules) clock 7 3)
   \<and> net_benefit (hd (optimize_card_combination (demo_db spec_rules) clock 7 3)) = 250
   \<and> net_benefit (hd (optimize_card_combination (demo_db spec_rules) clock 7 3)) =
       total_cashback (calculate_combination_rewards (demo_db spec_rules)
          (cards (hd (optimize_card_combination (demo_db spec_rules) clock 7 3)))
          (get_user_spending_pattern (demo_db spec_rules) clock 7 3))
     + total_points (calculate_combination_rewards (demo_db spec_rules)
          (cards (hd (optimize_card_combination (demo_db spec_rules) clock 7 3)))
          (get_user_spending_pattern (demo_db spec_rules) clock 7 3)) * (1 / 100)
     - sum_list (map annual_fee
          (cards (hd (optimize_card_combination (demo_db spec_rules) clock 7 3))))"
proof -
  have ne: "optimize_card_combination (demo_db spec_rules) clock 7 3 \<noteq> []"
    using demo_optimize by auto
  then have h: "hd (optimize_card_combination (demo_db spec_rules) clock 7 3)
               \<in> set (optimize_card_combination (demo_db spec_rules) clock 7 3)"
    by (rule hd_in_set)
  have v: "net_benefit (hd (optimize_card_combination (demo_db spec_rules) clock 7 3)) = 250"
    using demo_optimize ne
    by (cases "optimize_card_combination (demo_db spec_rules) clock 7 3") auto
  from net_benefit_formula[OF h] h v show ?thesis by blast
qed



section \<open>Properties of get_purchase_recommendation\<close>

text \<open>
  C9 (advisor results). The "no active cards" result is returned exactly when the join of
  the user's active cards with the active catalogue is empty. Otherwise, for an existing
  merchant, "no suitable card" is returned exactly when no active rule of an owned card
  yields a strictly positive candidate reward, and in every other case (the merchant's
  category row being present, as the foreign key requires) a recommendation is returned.
\<close>

theorem advisor_results:
  "(get_purchase_recommendation db u mid amt = NoActiveCards \<longleftrightarrow> owned_active_cards db u = [])
   \<and> (owned_active_cards db u \<noteq> [] \<longrightarrow> find (\<lambda>m. mer_id m = mid) (merchants db) = Some merchant \<longrightarrow>
        (get_purchase_recommendation db u mid amt = NoSuitableCard \<longleftrightarrow>
           \<not> (\<exists>uc \<in> set (owned_active_cards db u). \<exists>r \<in> set (active_rewards db (snd uc)).
                 0 < purchase_reward_amount merchant mid amt r))
        \<and> (find (\<lambda>c. cat_id c = mer_category_id merchant) (categories db) = Some cat \<longrightarrow>
            get_purchase_recommendation db u mid amt \<noteq> NoSuitableCard \<longrightarrow>
            (\<exists>rc best ty. get_purchase_recommendation db u mid amt
                 = Recommendation rc best ty (mer_name merchant) (cat_name cat))))"
proof (intro conjI impI)
  show "get_purchase_recommendation db u mid amt = NoActiveCards \<longleftrightarrow> owned_active_cards db u = []"
    by (auto simp: get_purchase_recommendation_def Let_def split: option.splits prod.splits)
next
  assume own: "owned_active_cards db u \<noteq> []"
    and mer: "find (\<lambda>m. mer_id m = mid) (merchants db) = Some merchant"
  obtain b' br' bt' where bp: "best_purchase db merchant mid amt (owned_active_cards db u) = (b', br', bt')"
    by (cases "best_purchase db merchant mid amt (owned_active_cards db u)") auto
  note res = recommendation_cases[OF own mer bp]
  note props = best_purchase_props[OF bp]
  show "get_purchase_recommendation db u mid amt = NoSuitableCard \<longleftrightarrow>
           \<not> (\<exists>uc \<in> set (owned_active_cards db u). \<exists>r \<in> set (active_rewards db (snd uc)).
                 0 < purchase_reward_amount merchant mid amt r)"
  proof (cases b')
    case None
    with props have "br' = 0" by auto
    with props have "\<forall>uc \<in> set (owned_active_cards db u). \<forall>r \<in> set (active_rewards db (snd uc)).
              purchase_reward_amount merchant mid amt r \<le> 0" by simp
    then have "\<not> (\<exists>uc \<in> set (owned_active_cards db u). \<exists>r \<in> set (active_rewards db (snd uc)).
                 0 < purchase_reward_amount merchant mid amt r)" by fastforce
    with None res show ?thesis by simp
  next
    case (Some best_card)
    with props have "\<exists>uc \<in> set (owned_active_cards db u). \<exists>r \<in> set (active_rewards db (snd uc)).
                 0 < purchase_reward_amount merchant mid amt r" by auto
    moreover from Some res have "get_purchase_recommendation db u mid amt \<noteq> NoSuitableCard"
      by (simp split: option.splits)
    ultimately show ?thesis by simp
  qed
  assume cat: "find (\<lambda>c. cat_id c = mer_category_id merchant) (categories db) = Some cat"
    and ns: "get_purchase_recommendation db u mid amt \<noteq> NoSuitableCard"
  from ns res obtain best_card where "b' = Some best_card" by (cases b') auto
  with res cat show "\<exists>rc best ty. get_purchase_recommendation db u mid amt
                 = Recommendation rc best ty (mer_name merchant) (cat_name cat)" by simp
qed


theorem advisor_results_witness:
  "get_purchase_recommendation (demo_db spec_rules) 8 10 100 = NoActiveCards
   \<and> owned_active_cards (demo_db spec_rules) 7 \<noteq> []
   \<and> find (\<lambda>m. mer_id m = 10) (merchants (demo_db spec_rules)) = Some shell
   \<and> get_purchase_recommendation (demo_db spec_rules) 7 10 100 \<noteq> NoActiveCards
   \<and> get_purchase_recommendation (demo_db spec_rules) 7 10 100 \<noteq> NoSuitableCard
   \<and> (\<exists>rc best ty. get_purchase_recommendation (demo_db spec_rules) 7 10 100
          = Recommendation rc best ty (mer_name shell) (cat_name petrol))
   \<and> get_purchase_recommendation (demo_db []) 7 10 100 = NoSuitableCard"
proof -
  have none: "owned_active_cards (demo_db spec_rules) 8 = []"
    by (simp add: owned_active_cards_def ex_defs)
  have own: "owned_active_cards (demo_db rules) 7 \<noteq> []" for rules
    by (simp add: demo_owned)
  have pos: "\<exists>uc \<in> set (owned_active_cards (demo_db spec_rules) 7).
               \<exists>r \<in> set (active_rewards (demo_db spec_rules) (snd uc)).
                 0 < purchase_reward_amount shell 10 100 r"
    unfolding demo_owned
    by (simp add: active_rewards_def purchase_reward_amount_def ex_defs)
  have neg: "\<not> (\<exists>uc \<in> set (owned_active_cards (demo_db []) 7).
               \<exists>r \<in> set (active_rewards (demo_db []) (snd uc)).
                 0 < purchase_reward_amount shell 10 100 r)"
    unfolding demo_owned
    by (simp add: active_rewards_def demo_db_def)
  note a = advisor_results[of "demo_db spec_rules" 8 10 100 shell petrol]
  note b = advisor_results[of "demo_db spec_rules" 7 10 100 shell petrol]
  note c = advisor_results[of "demo_db []" 7 10 100 shell petrol]
  from a none have 1: "get_purchase_recommendation (demo_db spec_rules) 8 10 100 = NoActiveCards"
    by blast
  from b own have 2: "get_purchase_recommendation (demo_db spec_rules) 7 10 100 \<noteq> NoActiveCards"
    by blast
  from b own demo_merchant pos
  have 3: "get_purchase_recommendation (demo_db spec_rules) 7 10 100 \<noteq> NoSuitableCard"
    by blast
  from b own demo_merchant demo_merchant_category 3
  have 4: "\<exists>rc best ty. get_purchase_recommendation (demo_db spec_rules) 7 10 100
          = Recommendation rc best ty (mer_name shell) (cat_name petrol)"
    by blast
  from c own demo_merchant neg
  have 5: "get_purchase_recommendation (demo_db []) 7 10 100 = NoSuitableCard"
    by blast
  from 1 2 3 4 5 own demo_merchant show ?thesis by blast
qed





section \<open>Independence of the minimum spend\<close>

text \<open>
  C10 (minimum spend is never consulted). For two databases that differ only in the
  \<open>minimum_spend\<close> values of their reward rules, calculate_card_rewards,
  _calculate_combination_rewards, optimize_card_combination and
  get_purchase_recommendation return the same results on the same arguments.
\<close>

theorem minimum_spend_never_consulted:
  assumes "clear_minimum_spend db1 = clear_minimum_spend db2"
  shows "calculate_card_rewards db1 crd P = calculate_card_rewards db2 crd P
       \<and> calculate_combination_rewards db1 cs P = calculate_combination_rewards db2 cs P
       \<and> optimize_card_combination db1 now u k = optimize_card_combination db2 now u k
       \<and> get_purchase_recommendation db1 u mid amt = get_purchase_recommendation db2 u mid amt"
proof -
  have "calculate_card_rewards db1 crd P = calculate_card_rewards (clear_minimum_spend db1) crd P"
    by (simp add: clear_calculate_card_rewards)
  also have "\<dots> = calculate_card_rewards db2 crd P"
    by (simp add: assms clear_calculate_card_rewards)
  finally have 1: "calculate_card_rewards db1 crd P = calculate_card_rewards db2 crd P" .
  have "calculate_combination_rewards db1 cs P = calculate_combination_rewards (clear_minimum_spend db1) cs P"
    by (simp add: clear_calculate_combination_rewards)
  also have "\<dots> = calculate_combination_rewards db2 cs P"
    by (simp add: assms clear_calculate_combination_rewards)
  finally have 2: "calculate_combination_rewards db1 cs P = calculate_combination_rewards db2 cs P" .
  have "optimize_card_combination db1 now u k = optimize_card_combination (clear_minimum_spend db1) now u k"
    by (simp add: clear_optimize_card_combination)
  also have "\<dots> = optimize_card_combination db2 now u k"
    by (simp add: assms clear_optimize_card_combination)
  finally have 3: "optimize_card_combination db1 now u k = optimize_card_combination db2 now u k" .
  have "get_purchase_recommendation db1 u mid amt = get_purchase_recommendation (clear_minimum_spend db1) u mid amt"
    by (simp add: clear_get_purchase_recommendation)
  also have "\<dots> = get_purchase_recommendation db2 u mid amt"
    by (simp add: assms clear_get_purchase_recommendation)
  finally have 4: "get_purchase_recommendation db1 u mid amt = get_purchase_recommendation db2 u mid amt" .
  from 1 2 3 4 show ?thesis by blast
qed


theorem minimum_spend_never_consulted_witness:
  "clear_minimum_spend (demo_db spec_rules)
     = clear_minimum_spend (demo_db (map (\<lambda>r. r\<lparr>minimum_spend := 1000\<rparr>) spec_rules))
   \<and> demo_db spec_rules \<noteq> demo_db (map (\<lambda>r. r\<lparr>minimum_spend := 1000\<rparr>) spec_rules)
   \<and> calculate_card_rewards (demo_db spec_rules) card_a [(''Petrol'', 300)]
     = calculate_card_rewards (demo_db (map (\<lambda>r. r\<lparr>minimum_spend := 1000\<rparr>) spec_rules))
         card_a [(''Petrol'', 300)]
   \<and> calculate_combination_rewards (demo_db spec_rules) [card_a, card_b] [(''Petrol'', 300)]
     = calculate_combination_rewards
         (demo_db (map (\<lambda>r. r\<lparr>minimum_spend := 1000\<rparr>) spec_rules))
         [card_a, card_b] [(''Petrol'', 300)]
   \<and> optimize_card_combination (demo_db spec_rules) clock 7 3
     = optimize_card_combination
         (demo_db (map (\<lambda>r. r\<lparr>minimum_spend := 1000\<rparr>) spec_rules)) clock 7 3
   \<and> get_purchase_recommendation (demo_db spec_rules) 7 10 100
     = get_purchase_recommendation
         (demo_db (map (\<lambda>r. r\<lparr>minimum_spend := 1000\<rparr>) spec_rules)) 7 10 100"
proof -
  have h: "clear_minimum_spend (demo_db spec_rules)
     = clear_minimum_spend (demo_db (map (\<lambda>r. r\<lparr>minimum_spend := 1000\<rparr>) spec_rules))"
    by (simp add: clear_minimum_spend_def clear_rule_def demo_db_def spec_rules_def rule_def)
  have d: "demo_db spec_rules \<noteq> demo_db (map (\<lambda>r. r\<lparr>minimum_spend := 1000\<rparr>) spec_rules)"
    by (simp add: demo_db_def spec_rules_def rule_def)
  from minimum_spend_never_consulted[OF h] h d show ?thesis by blast
qed

end
